theory Spec2Isabelle
  imports Main
begin

section \<open>Batch copy coordinator\<close>

text \<open>
  The unit tests \<^verbatim>\<open>tests/unit/synapseutils/unit_test_synapseutils_copy.py\<close> exercise
  \<^verbatim>\<open>synapseutils.copy\<close>, whose source file is not part of the sources at hand. Its
  data and its three functions are therefore written down from the specification
  (sections 3, 4.1 and 6) and from the shapes that the tests build.
\<close>

subsection \<open>Data\<close>

datatype jvalue = JStr string | JNum int

type_synonym file_handle_metadata = "(string \<times> jvalue) list"

record original_file =
  fileHandleId :: string
  associateObjectId :: string
  associateObjectType :: string

record copy_request_item =
  originalFile :: original_file
  newContentType :: "string option"
  newFileName :: "string option"

record copy_request_body =
  copyRequests :: "copy_request_item list"

text \<open>
  A result item is either \<^verbatim>\<open>{newFileHandle, originalFileHandleId}\<close> or
  \<^verbatim>\<open>{failureCode, originalFileHandleId}\<close>.
\<close>

datatype copy_result_item =
    CopySuccess file_handle_metadata string
  | CopyFailure string string

fun originalFileHandleId :: "copy_result_item \<Rightarrow> string" where
  "originalFileHandleId (CopySuccess h orig) = orig"
| "originalFileHandleId (CopyFailure code orig) = orig"

record copy_response =
  copyResults :: "copy_result_item list"

text \<open>The error taxonomy of section 7, as far as the coordinator meets it.\<close>

datatype copy_error = InvalidArgument | TransportError string

text \<open>
  The REST client is the capability \<^verbatim>\<open>post(path, body) -> response\<close>. The remote side
  may change with every call (the tests script it with a list of successive answers), so
  it is a transition function on a server state \<open>'s\<close>: a call either fails at the
  transport level or yields a response, and leaves a new state.
\<close>

type_synonym 's rest_post =
  "'s \<Rightarrow> copy_request_body \<Rightarrow> (copy_error + copy_response) \<times> 's"

text \<open>One entry of the log of remote calls: the body sent and what came back.\<close>

type_synonym remote_call = "copy_request_body \<times> (copy_error + copy_response)"

subsection \<open>Operations\<close>

definition MAX_FILE_HANDLE_PER_COPY_REQUEST :: nat where
  "MAX_FILE_HANDLE_PER_COPY_REQUEST = 100"

text \<open>Python's \<^verbatim>\<open>xs[i:j]\<close> for \<open>0 \<le> i \<le> j\<close>.\<close>

definition slice :: "'a list \<Rightarrow> nat \<Rightarrow> nat \<Rightarrow> 'a list" where
  "slice xs i j = take (j - i) (drop i xs)"

fun make_copy_request ::
  "string \<times> string \<times> string \<times> string option \<times> string option \<Rightarrow> copy_request_item" where
  "make_copy_request (fid, otype, oid, ctype, fname) =
     \<lparr>originalFile =
        \<lparr>fileHandleId = fid, associateObjectId = oid, associateObjectType = otype\<rparr>,
      newContentType = ctype,
      newFileName = fname\<rparr>"

text \<open>
  Modelled from the spec: \<^verbatim>\<open>_create_batch_file_handle_copy_request\<close> of
  \<^verbatim>\<open>synapseutils/copy.py\<close> is missing. Section 4.1, step 1: the request body is the
  list of copy request items built by zipping the input lists position by position,
  preserving their order; section 6 gives the shape of an item.
\<close>

definition create_batch_file_handle_copy_request ::
  "string list \<Rightarrow> string list \<Rightarrow> string list \<Rightarrow> string option list \<Rightarrow> string option list
     \<Rightarrow> copy_request_body" where
  "create_batch_file_handle_copy_request file_handle_ids obj_types obj_ids new_con_types
       new_file_names =
     \<lparr>copyRequests =
        map make_copy_request
          (zip file_handle_ids (zip obj_types (zip obj_ids (zip new_con_types new_file_names))))\<rparr>"

text \<open>
  Modelled from the spec: \<^verbatim>\<open>_copy_file_handles_batch\<close> of \<^verbatim>\<open>synapseutils/copy.py\<close> is
  missing. Section 4.1, step 2: the body of one page is the payload of a single remote
  call \<^verbatim>\<open>POST /filehandles/copy\<close>, whose response is handed back as it is.
\<close>

definition copy_file_handles_batch ::
  "'s rest_post \<Rightarrow> 's \<Rightarrow> string list \<Rightarrow> string list \<Rightarrow> string list \<Rightarrow> string option list
     \<Rightarrow> string option list \<Rightarrow> (copy_error + copy_response) \<times> 's" where
  "copy_file_handles_batch post s file_handle_ids obj_types obj_ids new_con_types
       new_file_names =
     post s
       (create_batch_file_handle_copy_request file_handle_ids obj_types obj_ids new_con_types
          new_file_names)"

text \<open>The body of the page that starts at index \<open>i\<close>.\<close>

definition page_body ::
  "string list \<Rightarrow> string list \<Rightarrow> string list \<Rightarrow> string option list \<Rightarrow> string option list
     \<Rightarrow> nat \<Rightarrow> copy_request_body" where
  "page_body ids types objs ctypes fnames i =
     create_batch_file_handle_copy_request
       (slice ids i (i + MAX_FILE_HANDLE_PER_COPY_REQUEST))
       (slice types i (i + MAX_FILE_HANDLE_PER_COPY_REQUEST))
       (slice objs i (i + MAX_FILE_HANDLE_PER_COPY_REQUEST))
       (slice ctypes i (i + MAX_FILE_HANDLE_PER_COPY_REQUEST))
       (slice fnames i (i + MAX_FILE_HANDLE_PER_COPY_REQUEST))"

text \<open>
  Modelled from the spec: the paging loop of \<^verbatim>\<open>copyFileHandles\<close> is missing. Section
  4.1: the index range \<open>[0, N)\<close> is cut into consecutive slices of the page size, the
  last one possibly shorter; for each slice in ascending order the page body is built,
  submitted as one remote call, and the \<^verbatim>\<open>copyResults\<close> of the response are appended
  to the accumulating output. A transport error is not retried: it leaves the loop at
  once. The loop carries the start index \<open>i\<close> of the next page, the results so far and
  the log of the remote calls made.
\<close>

function copy_pages ::
  "'s rest_post \<Rightarrow> 's \<Rightarrow> string list \<Rightarrow> string list \<Rightarrow> string list \<Rightarrow> string option list
     \<Rightarrow> string option list \<Rightarrow> nat \<Rightarrow> copy_result_item list \<Rightarrow> remote_call list
     \<Rightarrow> (copy_error + copy_result_item list) \<times> remote_call list \<times> 's" where
  "copy_pages post s ids types objs ctypes fnames i acc calls =
     (if i < length ids then
        (case copy_file_handles_batch post s
                (slice ids i (i + MAX_FILE_HANDLE_PER_COPY_REQUEST))
                (slice types i (i + MAX_FILE_HANDLE_PER_COPY_REQUEST))
                (slice objs i (i + MAX_FILE_HANDLE_PER_COPY_REQUEST))
                (slice ctypes i (i + MAX_FILE_HANDLE_PER_COPY_REQUEST))
                (slice fnames i (i + MAX_FILE_HANDLE_PER_COPY_REQUEST)) of
           (Inl e, s') \<Rightarrow>
             (Inl e, calls @ [(page_body ids types objs ctypes fnames i, Inl e)], s')
         | (Inr resp, s') \<Rightarrow>
             copy_pages post s' ids types objs ctypes fnames
               (i + MAX_FILE_HANDLE_PER_COPY_REQUEST)
               (acc @ copyResults resp)
               (calls @ [(page_body ids types objs ctypes fnames i, Inr resp)]))
      else (Inr acc, calls, s))"
  by pat_completeness auto
termination
  by (relation "measure (\<lambda>(post, s, ids, types, objs, ctypes, fnames, i, acc, calls).
        length ids - i)")
     (auto simp: MAX_FILE_HANDLE_PER_COPY_REQUEST_def)

text \<open>An omitted optional list stands for a list of absent values of the same length.\<close>

definition default_list :: "nat \<Rightarrow> 'a option list option \<Rightarrow> 'a option list" where
  "default_list n xs = (case xs of None \<Rightarrow> replicate n None | Some ys \<Rightarrow> ys)"

text \<open>
  Modelled from the spec: \<^verbatim>\<open>copyFileHandles\<close> of \<^verbatim>\<open>synapseutils/copy.py\<close> is missing.
  Section 4.1: the three required lists must be non-empty and of equal length, and a
  supplied optional list must have that length too; otherwise the call fails with
  \<open>InvalidArgument\<close> before any remote call. Then the pages are submitted one after the
  other. The result comes with the log of remote calls and the final server state.
\<close>

definition copyFileHandles ::
  "'s rest_post \<Rightarrow> 's \<Rightarrow> string list \<Rightarrow> string list \<Rightarrow> string list
     \<Rightarrow> string option list option \<Rightarrow> string option list option
     \<Rightarrow> (copy_error + copy_result_item list) \<times> remote_call list \<times> 's" where
  "copyFileHandles post s fileHandleIds objTypes objIds contentTypes fileNames =
     (if fileHandleIds = [] \<or> length objTypes \<noteq> length fileHandleIds
           \<or> length objIds \<noteq> length fileHandleIds
      then (Inl InvalidArgument, [], s)
      else if (case contentTypes of None \<Rightarrow> False
               | Some cs \<Rightarrow> length cs \<noteq> length fileHandleIds)
             \<or> (case fileNames of None \<Rightarrow> False
                | Some fs \<Rightarrow> length fs \<noteq> length fileHandleIds)
      then (Inl InvalidArgument, [], s)
      else copy_pages post s fileHandleIds objTypes objIds
             (default_list (length fileHandleIds) contentTypes)
             (default_list (length fileHandleIds) fileNames)
             0 [] [])"

text \<open>The results that one logged remote call contributed.\<close>

fun call_results :: "remote_call \<Rightarrow> copy_result_item list" where
  "call_results (body, Inl e) = []"
| "call_results (body, Inr resp) = copyResults resp"

text \<open>
  What the remote side does when it receives the given bodies one after the other,
  starting in state \<open>s\<close>: its answers, in order, and the state it is left in. This is
  the remote side's own account of the calls that reached it, whatever the caller has
  noted down.
\<close>

fun remote_answers ::
  "'s rest_post \<Rightarrow> 's \<Rightarrow> copy_request_body list \<Rightarrow> (copy_error + copy_response) list \<times> 's" where
  "remote_answers post s [] = ([], s)"
| "remote_answers post s (body # bodies) =
     (case post s body of
        (answer, s1) \<Rightarrow>
          (case remote_answers post s1 bodies of
             (answers, s2) \<Rightarrow> (answer # answers, s2)))"

subsection \<open>The scenarios of the unit tests\<close>

text \<open>Python's \<^verbatim>\<open>str\<close> on a natural number: its decimal digits.\<close>

fun str_nat :: "nat \<Rightarrow> string" where
  "str_nat n =
     (if n < 10 then [char_of (48 + n)]
      else str_nat (n div 10) @ [char_of (48 + n mod 10)])"

text \<open>
  A remote side that copies every requested file handle, as the mocked answers of
  \<^verbatim>\<open>test_copy_file_handles_multiple_batch\<close> do: one success item per request item,
  carrying the item's file handle id. Its state counts the calls received.
\<close>

definition echo_post :: "nat rest_post" where
  "echo_post n body =
     (Inr \<lparr>copyResults =
        map (\<lambda>r. CopySuccess [(''key'', JStr ''value'')] (fileHandleId (originalFile r)))
          (copyRequests body)\<rparr>, Suc n)"

text \<open>The input lists of \<^verbatim>\<open>test_copy_file_handles_multiple_batch\<close>.\<close>

definition num_copies :: nat where
  "num_copies = 102"

definition test_file_handles :: "string list" where
  "test_file_handles = map str_nat [0..<num_copies]"

definition test_obj_types :: "string list" where
  "test_obj_types = replicate num_copies ''FileEntity''"

definition test_obj_ids :: "string list" where
  "test_obj_ids = map str_nat [0..<num_copies]"

definition test_con_types :: "string option list" where
  "test_con_types = replicate num_copies (Some ''text/plain'')"

definition test_file_names :: "string option list" where
  "test_file_names = map (\<lambda>i. Some (''test'' @ str_nat i)) [0..<num_copies]"




section \<open>Transfer adapters\<close>

text \<open>
  The module \<^verbatim>\<open>synapseclient/remote_file_storage_wrappers.py\<close>: the two classes
  \<^verbatim>\<open>S3ClientWrapper\<close> and \<^verbatim>\<open>SFTPWrapper\<close>. What the module calls but does not define
  (the \<^verbatim>\<open>os\<close> module, \<^verbatim>\<open>urllib\<close>, \<^verbatim>\<open>boto3\<close> and \<^verbatim>\<open>pysftp\<close>) is a parameter
  of the model: a record of the functions used, each returning what the library call
  returns or the exception it raises. Every function of the model returns its result
  together with the list of the operations it asked of the local file system and of the
  remote side, in the order in which it asked for them.
\<close>

subsection \<open>Exceptions\<close>

text \<open>
  An exception is its class and its arguments. \<open>ClientError\<close> is
  \<^verbatim>\<open>botocore.exceptions.ClientError\<close> with its \<^verbatim>\<open>response['Error']['Code']\<close> and its
  message; \<open>LibraryError\<close> stands for any other exception that a library call raises.
\<close>

datatype py_exception =
    ValueError "string list"
  | NotImplementedError "string list"
  | ImportError string
  | ClientError string string
  | LibraryError string

subsection \<open>The libraries\<close>

record os_env =
  os_path_isfile :: "string \<Rightarrow> bool"
  os_path_isdir :: "string \<Rightarrow> bool"
  os_path_exists :: "string \<Rightarrow> bool"
  os_path_basename :: "string \<Rightarrow> string"
  os_path_dirname :: "string \<Rightarrow> string"
  os_path_split :: "string \<Rightarrow> string \<times> string"
  os_path_join :: "string \<Rightarrow> string \<Rightarrow> string"
  os_stat_st_size :: "string \<Rightarrow> nat"
  os_getcwd :: string
  os_makedirs :: "string \<Rightarrow> py_exception option"

text \<open>The six components of the result of \<^verbatim>\<open>urlparse\<close>.\<close>

record parsed_url =
  scheme :: string
  netloc :: string
  path :: string
  params :: string
  query :: string
  fragment :: string

record urllib_env =
  urlparse :: "string \<Rightarrow> py_exception + parsed_url"
  urlunparse :: "parsed_url \<Rightarrow> string"
  quote :: "string \<Rightarrow> string"
  unquote :: "string \<Rightarrow> string"
  hostname :: "parsed_url \<Rightarrow> string option"

text \<open>
  \<^verbatim>\<open>boto3\<close>: whether the package can be imported, the creation of a session for a
  profile, the creation of the S3 resource for an endpoint, and the three requests of the
  module: \<^verbatim>\<open>Object(bucket, key).load()\<close> (which makes \<^verbatim>\<open>content_length\<close> known),
  \<^verbatim>\<open>Object(bucket, key).download_file(path)\<close> and
  \<^verbatim>\<open>Bucket(bucket).upload_file(path, key)\<close>.
\<close>

record boto3_env =
  boto3_importable :: bool
  Session :: "string option \<Rightarrow> py_exception option"
  resource :: "string option \<Rightarrow> string \<Rightarrow> py_exception option"
  Object_load :: "string \<Rightarrow> string \<Rightarrow> py_exception + nat"
  Object_download_file :: "string \<Rightarrow> string \<Rightarrow> string \<Rightarrow> py_exception option"
  Bucket_upload_file :: "string \<Rightarrow> string \<Rightarrow> string \<Rightarrow> py_exception option"

text \<open>
  \<^verbatim>\<open>pysftp\<close>: whether the package can be imported, the opening of a connection
  (host name, user name, password) and the requests made on an open connection.
\<close>

record pysftp_env =
  pysftp_importable :: bool
  Connection :: "string option \<Rightarrow> string option \<Rightarrow> string option \<Rightarrow> py_exception option"
  sftp_makedirs :: "string \<Rightarrow> py_exception option"
  sftp_cd :: "string \<Rightarrow> py_exception option"
  sftp_put :: "string \<Rightarrow> py_exception option"
  sftp_get :: "string \<Rightarrow> string \<Rightarrow> py_exception option"

subsection \<open>Operations asked of the outside\<close>

text \<open>
  The closure that \<^verbatim>\<open>_create_progress_callback_func(file_size, filename, prefix)\<close>
  returns, as the values it has captured.
\<close>

datatype progress_callback = ProgressCallback nat string "string option"

definition create_progress_callback_func ::
  "nat \<Rightarrow> string \<Rightarrow> string option \<Rightarrow> progress_callback" where
  "create_progress_callback_func file_size filename prefix =
     ProgressCallback file_size filename prefix"

datatype s3_event =
    CreateSession "string option"
  | CreateResource string
  | LoadObject string string
  | DownloadObject string string string "progress_callback option"
  | UploadObject string string string "progress_callback option"

text \<open>
  \<open>Put\<close> and \<open>Get\<close> carry the \<^verbatim>\<open>preserve_mtime\<close> flag of the call. \<open>LeaveDir\<close> and
  \<open>CloseConnection\<close> are the exits of the two \<^verbatim>\<open>with\<close> blocks.
\<close>

datatype sftp_event =
    LocalMakedirs string
  | OpenConnection "string option" "string option" "string option"
  | RemoteMakedirs string
  | EnterDir string
  | Put string bool
  | Get string string bool
  | LeaveDir
  | CloseConnection

subsection \<open>S3ClientWrapper\<close>

text \<open>
  \<^verbatim>\<open>_check_import_boto3\<close>: the import is tried, and the \<^verbatim>\<open>ImportError\<close> raised again
  after the installation notes are written to standard error.
\<close>

definition check_import_boto3 :: "boto3_env \<Rightarrow> py_exception option" where
  "check_import_boto3 env =
     (if boto3_importable env then None else Some (ImportError ''boto3''))"

text \<open>
  The body of the \<^verbatim>\<open>try\<close> block of \<^verbatim>\<open>download_file\<close> (lines 71 to 80): the exception
  that leaves it, or the path returned.
\<close>

definition download_file_try ::
  "os_env \<Rightarrow> boto3_env \<Rightarrow> string \<Rightarrow> string \<Rightarrow> string \<Rightarrow> bool
     \<Rightarrow> (py_exception + string) \<times> s3_event list" where
  "download_file_try os env bucket remote_file_key download_file_path show_progress =
     (if show_progress then
        (case Object_load env bucket remote_file_key of
           Inl e \<Rightarrow> (Inl e, [LoadObject bucket remote_file_key])
         | Inr file_size \<Rightarrow>
             (let filename = os_path_basename os download_file_path;
                  progress_callback =
                    Some (create_progress_callback_func file_size filename
                            (Some ''Downloading''))
              in (case Object_download_file env bucket remote_file_key download_file_path of
                    Some e \<Rightarrow>
                      (Inl e,
                       [LoadObject bucket remote_file_key,
                        DownloadObject bucket remote_file_key download_file_path
                          progress_callback])
                  | None \<Rightarrow>
                      (Inr download_file_path,
                       [LoadObject bucket remote_file_key,
                        DownloadObject bucket remote_file_key download_file_path
                          progress_callback]))))
      else
        (case Object_download_file env bucket remote_file_key download_file_path of
           Some e \<Rightarrow>
             (Inl e, [DownloadObject bucket remote_file_key download_file_path None])
         | None \<Rightarrow>
             (Inr download_file_path,
              [DownloadObject bucket remote_file_key download_file_path None])))"

text \<open>
  The \<^verbatim>\<open>except botocore.exceptions.ClientError\<close> clause (lines 81 to 85): a client error
  with code \<^verbatim>\<open>"404"\<close> is replaced by a \<^verbatim>\<open>ValueError\<close> whose arguments are the message
  format, the key and the bucket; any other client error is raised again. An exception
  of another class is not caught.
\<close>

definition download_file_except :: "string \<Rightarrow> string \<Rightarrow> py_exception \<Rightarrow> py_exception" where
  "download_file_except remote_file_key bucket e =
     (case e of
        ClientError code msg \<Rightarrow>
          (if code = ''404''
           then ValueError [''The key:%s does not exist in bucket:%s.'', remote_file_key, bucket]
           else e)
      | _ \<Rightarrow> e)"

definition S3ClientWrapper_download_file ::
  "os_env \<Rightarrow> boto3_env \<Rightarrow> string \<Rightarrow> string \<Rightarrow> string \<Rightarrow> string \<Rightarrow> string option \<Rightarrow> bool
     \<Rightarrow> (py_exception + string) \<times> s3_event list" where
  "S3ClientWrapper_download_file os env bucket endpoint_url remote_file_key download_file_path
       profile_name show_progress =
     (case check_import_boto3 env of
        Some e \<Rightarrow> (Inl e, [])
      | None \<Rightarrow>
     (case Session env profile_name of
        Some e \<Rightarrow> (Inl e, [CreateSession profile_name])
      | None \<Rightarrow>
     (case resource env profile_name endpoint_url of
        Some e \<Rightarrow> (Inl e, [CreateSession profile_name, CreateResource endpoint_url])
      | None \<Rightarrow>
     (case download_file_try os env bucket remote_file_key download_file_path show_progress of
        (Inl e, events) \<Rightarrow>
          (Inl (download_file_except remote_file_key bucket e),
           [CreateSession profile_name, CreateResource endpoint_url] @ events)
      | (Inr r, events) \<Rightarrow>
          (Inr r, [CreateSession profile_name, CreateResource endpoint_url] @ events)))))"

definition S3ClientWrapper_upload_file ::
  "os_env \<Rightarrow> boto3_env \<Rightarrow> string \<Rightarrow> string \<Rightarrow> string \<Rightarrow> string \<Rightarrow> string option \<Rightarrow> bool
     \<Rightarrow> (py_exception + string) \<times> s3_event list" where
  "S3ClientWrapper_upload_file os env bucket endpoint_url remote_file_key upload_file_path
       profile_name show_progress =
     (case check_import_boto3 env of
        Some e \<Rightarrow> (Inl e, [])
      | None \<Rightarrow>
     (if \<not> os_path_isfile os upload_file_path
      then (Inl (ValueError [''The path: [%s] does not exist or is not a file'',
                             upload_file_path]), [])
      else
     (case Session env profile_name of
        Some e \<Rightarrow> (Inl e, [CreateSession profile_name])
      | None \<Rightarrow>
     (case resource env profile_name endpoint_url of
        Some e \<Rightarrow> (Inl e, [CreateSession profile_name, CreateResource endpoint_url])
      | None \<Rightarrow>
     (let progress_callback =
            (if show_progress
             then Some (create_progress_callback_func (os_stat_st_size os upload_file_path)
                          (os_path_basename os upload_file_path) (Some ''Uploading''))
             else None);
          events = [CreateSession profile_name, CreateResource endpoint_url,
                    UploadObject bucket upload_file_path remote_file_key progress_callback]
      in (case Bucket_upload_file env bucket upload_file_path remote_file_key of
            Some e \<Rightarrow> (Inl e, events)
          | None \<Rightarrow> (Inr upload_file_path, events)))))))"

subsection \<open>SFTPWrapper\<close>

definition check_import_sftp :: "pysftp_env \<Rightarrow> py_exception option" where
  "check_import_sftp env =
     (if pysftp_importable env then None else Some (ImportError ''pysftp''))"

definition parse_for_sftp :: "urllib_env \<Rightarrow> string \<Rightarrow> py_exception + parsed_url" where
  "parse_for_sftp lib url =
     (case urlparse lib url of
        Inl e \<Rightarrow> Inl e
      | Inr parsedURL \<Rightarrow>
          (if scheme parsedURL \<noteq> ''sftp''
           then Inl (NotImplementedError
                       [''This method only supports sftp URLs of the  form sftp://...''])
           else Inr parsedURL))"

text \<open>
  The block under \<^verbatim>\<open>with pysftp.Connection(...) as sftp\<close> of \<^verbatim>\<open>upload_file\<close> (lines
  164 to 166), on an open connection: the exception that leaves it, if any.
\<close>

definition upload_file_transfer ::
  "pysftp_env \<Rightarrow> string \<Rightarrow> string \<Rightarrow> py_exception option \<times> sftp_event list" where
  "upload_file_transfer env remote_path filepath =
     (case sftp_makedirs env remote_path of
        Some e \<Rightarrow> (Some e, [RemoteMakedirs remote_path])
      | None \<Rightarrow>
     (case sftp_cd env remote_path of
        Some e \<Rightarrow> (Some e, [RemoteMakedirs remote_path, EnterDir remote_path])
      | None \<Rightarrow>
          (sftp_put env filepath,
           [RemoteMakedirs remote_path, EnterDir remote_path, Put filepath True, LeaveDir])))"

definition SFTPWrapper_upload_file ::
  "urllib_env \<Rightarrow> os_env \<Rightarrow> pysftp_env \<Rightarrow> string \<Rightarrow> string \<Rightarrow> string option \<Rightarrow> string option
     \<Rightarrow> (py_exception + string) \<times> sftp_event list" where
  "SFTPWrapper_upload_file lib os env filepath url username password =
     (case check_import_sftp env of
        Some e \<Rightarrow> (Inl e, [])
      | None \<Rightarrow>
     (case parse_for_sftp lib url of
        Inl e \<Rightarrow> (Inl e, [])
      | Inr parsedURL \<Rightarrow>
     (case Connection env (hostname lib parsedURL) username password of
        Some e \<Rightarrow> (Inl e, [OpenConnection (hostname lib parsedURL) username password])
      | None \<Rightarrow>
     (case upload_file_transfer env (path parsedURL) filepath of
        (Some e, events) \<Rightarrow>
          (Inl e,
           [OpenConnection (hostname lib parsedURL) username password] @ events
             @ [CloseConnection])
      | (None, events) \<Rightarrow>
          (let path' = quote lib (path parsedURL @ ''/'' @ snd (os_path_split os filepath));
               parsedURL' = parsedURL\<lparr>path := path'\<rparr>
           in (Inr (urlunparse lib parsedURL'),
               [OpenConnection (hostname lib parsedURL) username password] @ events
                 @ [CloseConnection]))))))"

text \<open>Python's \<^verbatim>\<open>s.split(sep)\<close> for a separator of one character.\<close>

fun str_split :: "string \<Rightarrow> char \<Rightarrow> string list" where
  "str_split [] sep = [[]]"
| "str_split (c # cs) sep =
     (if c = sep then [] # str_split cs sep
      else (case str_split cs sep of
              [] \<Rightarrow> [[c]]
            | w # ws \<Rightarrow> (c # w) # ws))"

text \<open>
  Lines 191 to 195 of \<^verbatim>\<open>download_file\<close>: where the file goes. \<^verbatim>\<open>xs[-1]\<close> is the last
  element; the list that \<^verbatim>\<open>split\<close> returns is never empty.
\<close>

definition download_local_path ::
  "urllib_env \<Rightarrow> os_env \<Rightarrow> parsed_url \<Rightarrow> string option \<Rightarrow> string" where
  "download_local_path lib os parsedURL localFilepath =
     (let path' = unquote lib (path parsedURL);
          localFilepath1 = (case localFilepath of None \<Rightarrow> os_getcwd os | Some p \<Rightarrow> p)
      in if os_path_isdir os localFilepath1
         then os_path_join os localFilepath1 (last (str_split path' CHR ''/''))
         else localFilepath1)"

definition SFTPWrapper_download_file ::
  "urllib_env \<Rightarrow> os_env \<Rightarrow> pysftp_env \<Rightarrow> string \<Rightarrow> string option \<Rightarrow> string option
     \<Rightarrow> string option \<Rightarrow> (py_exception + string) \<times> sftp_event list" where
  "SFTPWrapper_download_file lib os env url localFilepath username password =
     (case check_import_sftp env of
        Some e \<Rightarrow> (Inl e, [])
      | None \<Rightarrow>
     (case parse_for_sftp lib url of
        Inl e \<Rightarrow> (Inl e, [])
      | Inr parsedURL \<Rightarrow>
     (let path' = unquote lib (path parsedURL);
          localFilepath' = download_local_path lib os parsedURL localFilepath;
          dir = os_path_dirname os localFilepath';
          made = (if \<not> os_path_exists os dir then [LocalMakedirs dir] else [])
      in (case (if \<not> os_path_exists os dir then os_makedirs os dir else None) of
            Some e \<Rightarrow> (Inl e, made)
          | None \<Rightarrow>
         (case Connection env (hostname lib parsedURL) username password of
            Some e \<Rightarrow>
              (Inl e, made @ [OpenConnection (hostname lib parsedURL) username password])
          | None \<Rightarrow>
         (case sftp_get env path' localFilepath' of
            Some e \<Rightarrow>
              (Inl e,
               made @ [OpenConnection (hostname lib parsedURL) username password,
                       Get path' localFilepath' True, CloseConnection])
          | None \<Rightarrow>
              (Inr localFilepath',
               made @ [OpenConnection (hostname lib parsedURL) username password,
                       Get path' localFilepath' True, CloseConnection])))))))"

subsection \<open>An installation to run the adapters on\<close>

text \<open>
  One concrete instance of every library record, for running the adapters on examples.
  The path functions follow \<^verbatim>\<open>posixpath\<close>.
\<close>

definition posix_basename :: "string \<Rightarrow> string" where
  "posix_basename p = rev (takeWhile (\<lambda>c. c \<noteq> CHR ''/'') (rev p))"

text \<open>
  The head that \<^verbatim>\<open>posixpath.split\<close> returns: everything up to the last slash, without
  its trailing slashes unless it consists of slashes only.
\<close>

definition posix_dirname :: "string \<Rightarrow> string" where
  "posix_dirname p =
     (let h = rev (dropWhile (\<lambda>c. c \<noteq> CHR ''/'') (rev p))
      in if h \<noteq> [] \<and> filter (\<lambda>c. c \<noteq> CHR ''/'') h \<noteq> []
         then rev (dropWhile (\<lambda>c. c = CHR ''/'') (rev h))
         else h)"

definition posix_split :: "string \<Rightarrow> string \<times> string" where
  "posix_split p = (posix_dirname p, posix_basename p)"

definition posix_join :: "string \<Rightarrow> string \<Rightarrow> string" where
  "posix_join a b =
     (if take 1 b = ''/'' then b
      else if a = [] \<or> take 1 (rev a) = ''/'' then a @ b
      else a @ ''/'' @ b)"

text \<open>
  A file system with the directories \<^verbatim>\<open>/\<close>, \<^verbatim>\<open>/tmp\<close>, \<^verbatim>\<open>/home\<close> and
  \<^verbatim>\<open>/home/user\<close>, the last being the working directory, and one regular file in it.
  Directories can be created anywhere; \<^verbatim>\<open>os.makedirs('')\<close> raises.
\<close>

definition example_dirs :: "string list" where
  "example_dirs = [''/'', ''/tmp'', ''/home'', ''/home/user'']"

definition example_files :: "string list" where
  "example_files = [''/home/user/data file.csv'']"

definition example_os :: os_env where
  "example_os =
     \<lparr>os_path_isfile = (\<lambda>p. p \<in> set example_files),
      os_path_isdir = (\<lambda>p. p \<in> set example_dirs),
      os_path_exists = (\<lambda>p. p \<in> set (example_dirs @ example_files)),
      os_path_basename = posix_basename,
      os_path_dirname = posix_dirname,
      os_path_split = posix_split,
      os_path_join = posix_join,
      os_stat_st_size = (\<lambda>p. 2048),
      os_getcwd = ''/home/user'',
      os_makedirs =
        (\<lambda>p. if p = [] then Some (LibraryError ''FileNotFoundError'') else None)\<rparr>"

text \<open>
  The URL functions, for URLs of the shape \<^verbatim>\<open>scheme://netloc/path\<close> with a lower-case
  scheme and host and no parameters, query or fragment; the examples use no other.
\<close>

definition example_urlparse :: "string \<Rightarrow> py_exception + parsed_url" where
  "example_urlparse url =
     (let s = takeWhile (\<lambda>c. c \<noteq> CHR '':'') url;
          rest = drop (length s + 1) url;
          n = takeWhile (\<lambda>c. c \<noteq> CHR ''/'') (drop 2 rest)
      in Inr \<lparr>scheme = s, netloc = n, path = drop (2 + length n) rest,
               params = [], query = [], fragment = []\<rparr>)"

definition example_urlunparse :: "parsed_url \<Rightarrow> string" where
  "example_urlunparse u = scheme u @ ''://'' @ netloc u @ path u"

definition unreserved :: "char list" where
  "unreserved =
     ''ABCDEFGHIJKLMNOPQRSTUVWXYZabcdefghijklmnopqrstuvwxyz0123456789_.-~''"

definition hex_digit :: "nat \<Rightarrow> char" where
  "hex_digit n = ''0123456789ABCDEF'' ! n"

text \<open>\<^verbatim>\<open>quote\<close> with its default \<^verbatim>\<open>safe='/'\<close>.\<close>

definition example_quote :: "string \<Rightarrow> string" where
  "example_quote s =
     concat (map (\<lambda>c. if c \<in> set (CHR ''/'' # unreserved) then [c]
                       else [CHR ''%'', hex_digit (of_char c div 16),
                             hex_digit (of_char c mod 16)]) s)"

definition hex_value :: "char \<Rightarrow> nat option" where
  "hex_value c =
     (let i = length (takeWhile (\<lambda>d. d \<noteq> c) ''0123456789ABCDEF'');
          j = length (takeWhile (\<lambda>d. d \<noteq> c) ''0123456789abcdef'')
      in if i < 16 then Some i else if j < 16 then Some j else None)"

fun example_unquote :: "string \<Rightarrow> string" where
  "example_unquote [] = []"
| "example_unquote [c] = [c]"
| "example_unquote [c, a] = [c, a]"
| "example_unquote (c # a # b # cs) =
     (case (c = CHR ''%'', hex_value a, hex_value b) of
        (True, Some x, Some y) \<Rightarrow> char_of (16 * x + y) # example_unquote cs
      | _ \<Rightarrow> c # example_unquote (a # b # cs))"

definition example_hostname :: "parsed_url \<Rightarrow> string option" where
  "example_hostname u =
     (let h = takeWhile (\<lambda>c. c \<noteq> CHR '':'') (netloc u)
      in if h = [] then None else Some h)"

definition example_urllib :: urllib_env where
  "example_urllib =
     \<lparr>urlparse = example_urlparse, urlunparse = example_urlunparse, quote = example_quote,
      unquote = example_unquote, hostname = example_hostname\<rparr>"

text \<open>
  An object store that holds every key but \<^verbatim>\<open>missing.txt\<close>, which it reports as not
  found, and \<^verbatim>\<open>secret.txt\<close>, which it refuses to hand out.
\<close>

definition example_head :: "string \<Rightarrow> py_exception option" where
  "example_head key =
     (if key = ''missing.txt'' then Some (ClientError ''404'' ''Not Found'')
      else if key = ''secret.txt'' then Some (ClientError ''403'' ''Forbidden'')
      else None)"

definition example_boto3 :: boto3_env where
  "example_boto3 =
     \<lparr>boto3_importable = True,
      Session = (\<lambda>profile. None),
      resource = (\<lambda>profile endpoint. None),
      Object_load =
        (\<lambda>bucket key. case example_head key of Some e \<Rightarrow> Inl e | None \<Rightarrow> Inr 2048),
      Object_download_file = (\<lambda>bucket key dest. example_head key),
      Bucket_upload_file = (\<lambda>bucket src key. None)\<rparr>"

text \<open>An SFTP server that accepts every connection and every request.\<close>

definition example_pysftp :: pysftp_env where
  "example_pysftp =
     \<lparr>pysftp_importable = True,
      Connection = (\<lambda>host user password. None),
      sftp_makedirs = (\<lambda>p. None),
      sftp_cd = (\<lambda>p. None),
      sftp_put = (\<lambda>p. None),
      sftp_get = (\<lambda>remote local. None)\<rparr>"

section \<open>The paging loop\<close>

subsection \<open>Arithmetic of page starts\<close>

lemma page_count_step:
  assumes "i < n"
  shows "(n - i + 99) div 100 = Suc ((n - (i + 100) + 99) div (100::nat))"
proof (cases "n < i + 100")
  case True
  with assms have "n - (i + 100) = 0" "100 \<le> n - i + 99" "n - i + 99 < 200" by auto
  then show ?thesis by (simp add: div_nat_eqI)
next
  case False
  define r where "r = n - (i + 100)"
  with False have "n - i = r + 100" by simp
  then show ?thesis unfolding r_def [symmetric] by simp
qed

lemma map_upt_Suc_shift: "map f [0..<Suc m] = f 0 # map (\<lambda>k. f (Suc k)) [0..<m]"
  by (simp only: upt_conv_Cons [of 0 "Suc m"] map_Suc_upt [symmetric]) (simp add: comp_def)

lemma starts_unfold:
  assumes "i < n"
  shows "map (\<lambda>k. f (i + k * 100)) [0..<(n - i + 99) div 100]
       = f i # map (\<lambda>k. f (i + 100 + k * 100)) [0..<(n - (i + 100) + 99) div 100]"
  unfolding page_count_step [OF assms] map_upt_Suc_shift
  by (simp add: add.assoc)

subsection \<open>One turn of the loop\<close>

lemma copy_pages_done:
  "\<not> i < length ids \<Longrightarrow>
   copy_pages post s ids types objs ctypes fnames i acc calls = (Inr acc, calls, s)"
  by simp

lemma copy_pages_step_ok:
  "i < length ids \<Longrightarrow> post s (page_body ids types objs ctypes fnames i) = (Inr resp, s1) \<Longrightarrow>
   copy_pages post s ids types objs ctypes fnames i acc calls =
   copy_pages post s1 ids types objs ctypes fnames (i + 100) (acc @ copyResults resp)
     (calls @ [(page_body ids types objs ctypes fnames i, Inr resp)])"
  by (subst copy_pages.simps)
     (simp add: copy_file_handles_batch_def page_body_def MAX_FILE_HANDLE_PER_COPY_REQUEST_def)

lemma copy_pages_step_fail:
  "i < length ids \<Longrightarrow> post s (page_body ids types objs ctypes fnames i) = (Inl e, s1) \<Longrightarrow>
   copy_pages post s ids types objs ctypes fnames i acc calls =
   (Inl e, calls @ [(page_body ids types objs ctypes fnames i, Inl e)], s1)"
  by (subst copy_pages.simps)
     (simp add: copy_file_handles_batch_def page_body_def MAX_FILE_HANDLE_PER_COPY_REQUEST_def)

text \<open>
  Induction over a run of the loop that returns a result: every page on the way was
  answered by the remote side.
\<close>

lemma copy_pages_ok_induct [consumes 1, case_names finish page]:
  assumes run: "copy_pages post s ids types objs ctypes fnames i acc calls = (Inr rs, calls', s')"
    and finish: "\<And>s i acc calls. \<not> i < length ids \<Longrightarrow> P s i acc calls acc calls s"
    and page: "\<And>s i acc calls resp s1 rs calls' s'.
        i < length ids \<Longrightarrow> post s (page_body ids types objs ctypes fnames i) = (Inr resp, s1) \<Longrightarrow>
        P s1 (i + 100) (acc @ copyResults resp)
          (calls @ [(page_body ids types objs ctypes fnames i, Inr resp)]) rs calls' s' \<Longrightarrow>
        P s i acc calls rs calls' s'"
  shows "P s i acc calls rs calls' s'"
  using run finish page
proof (induction post s ids types objs ctypes fnames i acc calls rule: copy_pages.induct)
  case (1 post s ids types objs ctypes fnames i acc calls)
  show ?case
  proof (cases "i < length ids")
    case False
    with "1.prems" "1.prems"(2) [OF False, of s acc calls] show ?thesis by simp
  next
    case True
    obtain r s1 where b: "post s (page_body ids types objs ctypes fnames i) = (r, s1)"
      by (cases "post s (page_body ids types objs ctypes fnames i)") auto
    show ?thesis
    proof (cases r)
      case (Inl e)
      with b have "post s (page_body ids types objs ctypes fnames i) = (Inl e, s1)" by simp
      from copy_pages_step_fail [where post = post and s = s, OF True this] "1.prems"(1)
      show ?thesis by (simp del: copy_pages.simps)
    next
      case (Inr resp)
      with b have b': "post s (page_body ids types objs ctypes fnames i) = (Inr resp, s1)" by simp
      have b'': "(r, s1) = copy_file_handles_batch post s
                (slice ids i (i + MAX_FILE_HANDLE_PER_COPY_REQUEST))
                (slice types i (i + MAX_FILE_HANDLE_PER_COPY_REQUEST))
                (slice objs i (i + MAX_FILE_HANDLE_PER_COPY_REQUEST))
                (slice ctypes i (i + MAX_FILE_HANDLE_PER_COPY_REQUEST))
                (slice fnames i (i + MAX_FILE_HANDLE_PER_COPY_REQUEST))"
        using b by (simp add: copy_file_handles_batch_def page_body_def)
      have rec: "copy_pages post s1 ids types objs ctypes fnames (i + 100) (acc @ copyResults resp)
          (calls @ [(page_body ids types objs ctypes fnames i, Inr resp)]) = (Inr rs, calls', s')"
        using "1.prems"(1) copy_pages_step_ok [where post = post and s = s, OF True b']
        by (simp del: copy_pages.simps)
      have "P s1 (i + 100) (acc @ copyResults resp)
          (calls @ [(page_body ids types objs ctypes fnames i, Inr resp)]) rs calls' s'"
        using "1.IH" [OF True b'' Inr] rec "1.prems"(2,3)
        by (simp add: MAX_FILE_HANDLE_PER_COPY_REQUEST_def del: copy_pages.simps)
      then show ?thesis using "1.prems"(3) [OF True b'] by blast
    qed
  qed
qed

subsection \<open>Slices and page bodies\<close>

lemma slice_length: "length (slice xs i j) = min (j - i) (length xs - i)"
  by (simp add: slice_def)

lemma take_slice_append: "take i xs @ slice xs i (i + n) = take (i + n) xs"
  by (simp add: slice_def take_add)


lemma request_ids_zip:
  assumes "length b = length a" "length c = length a" "length d = length a" "length e = length a"
  shows "map (\<lambda>r. fileHandleId (originalFile r))
           (copyRequests (create_batch_file_handle_copy_request a b c d e)) = a"
proof -
  have "(\<lambda>x. fileHandleId (originalFile (make_copy_request x))) = fst"
    by (auto simp: fun_eq_iff)
  then show ?thesis
    using assms by (simp add: create_batch_file_handle_copy_request_def comp_def)
qed

lemma page_body_ids:
  assumes "length types = length ids" "length objs = length ids"
    "length ctypes = length ids" "length fnames = length ids"
  shows "map (\<lambda>r. fileHandleId (originalFile r))
           (copyRequests (page_body ids types objs ctypes fnames i)) = slice ids i (i + 100)"
  unfolding page_body_def MAX_FILE_HANDLE_PER_COPY_REQUEST_def
  by (rule request_ids_zip) (simp_all add: slice_length assms)

lemma page_body_length:
  assumes "length types = length ids" "length objs = length ids"
    "length ctypes = length ids" "length fnames = length ids"
  shows "length (copyRequests (page_body ids types objs ctypes fnames i)) = min 100 (length ids - i)"
proof -
  have "length (copyRequests (page_body ids types objs ctypes fnames i))
      = length (map (\<lambda>r. fileHandleId (originalFile r))
           (copyRequests (page_body ids types objs ctypes fnames i)))"
    by simp
  also have "\<dots> = length (slice ids i (i + 100))"
    by (simp only: page_body_ids [OF assms])
  finally show ?thesis by (simp add: slice_length)
qed

subsection \<open>What a run that returns has done\<close>

lemma copy_pages_calls:
  "copy_pages post s ids types objs ctypes fnames i acc calls = (Inr rs, calls', s') \<Longrightarrow>
   map fst calls' = map fst calls @
     map (\<lambda>k. page_body ids types objs ctypes fnames (i + k * 100))
       [0..<(length ids - i + 99) div 100]"
proof (induction post s ids types objs ctypes fnames i acc calls rule: copy_pages.induct)
  case (1 post s ids types objs ctypes fnames i acc calls)
  show ?case
  proof (cases "i < length ids")
    case False
    with "1.prems" show ?thesis by simp
  next
    case True
    obtain r s1 where b: "copy_file_handles_batch post s
                (slice ids i (i + MAX_FILE_HANDLE_PER_COPY_REQUEST))
                (slice types i (i + MAX_FILE_HANDLE_PER_COPY_REQUEST))
                (slice objs i (i + MAX_FILE_HANDLE_PER_COPY_REQUEST))
                (slice ctypes i (i + MAX_FILE_HANDLE_PER_COPY_REQUEST))
                (slice fnames i (i + MAX_FILE_HANDLE_PER_COPY_REQUEST)) = (r, s1)"
      by (cases "copy_file_handles_batch post s
                (slice ids i (i + MAX_FILE_HANDLE_PER_COPY_REQUEST))
                (slice types i (i + MAX_FILE_HANDLE_PER_COPY_REQUEST))
                (slice objs i (i + MAX_FILE_HANDLE_PER_COPY_REQUEST))
                (slice ctypes i (i + MAX_FILE_HANDLE_PER_COPY_REQUEST))
                (slice fnames i (i + MAX_FILE_HANDLE_PER_COPY_REQUEST))") auto
    show ?thesis
    proof (cases r)
      case (Inl e)
      with True b "1.prems" show ?thesis by simp
    next
      case (Inr resp)
      with True b "1.prems" have rec: "copy_pages post s1 ids types objs ctypes fnames
               (i + MAX_FILE_HANDLE_PER_COPY_REQUEST)
               (acc @ copyResults resp)
               (calls @ [(page_body ids types objs ctypes fnames i, Inr resp)]) = (Inr rs, calls', s')"
        by simp
      have "map fst calls' = map fst (calls @ [(page_body ids types objs ctypes fnames i, Inr resp)]) @
     map (\<lambda>k. page_body ids types objs ctypes fnames (i + MAX_FILE_HANDLE_PER_COPY_REQUEST + k * 100))
       [0..<(length ids - (i + MAX_FILE_HANDLE_PER_COPY_REQUEST) + 99) div 100]"
        using "1.IH" [OF True b [symmetric] Inr rec] .
      then show ?thesis
        using starts_unfold [OF True, of "page_body ids types objs ctypes fnames"]
        by (simp add: MAX_FILE_HANDLE_PER_COPY_REQUEST_def)
    qed
  qed
qed

lemma copy_pages_results:
  assumes "copy_pages post s ids types objs ctypes fnames i acc calls = (Inr rs, calls', s')"
    and "acc = concat (map call_results calls)"
  shows "rs = concat (map call_results calls')"
  using assms
  by (induction rule: copy_pages_ok_induct) simp_all

lemma copy_pages_order:
  assumes "copy_pages post s ids types objs ctypes fnames i acc calls = (Inr rs, calls', s')"
    and "map originalFileHandleId acc = take i ids"
    and "\<forall>s body resp s1. post s body = (Inr resp, s1) \<longrightarrow>
           map originalFileHandleId (copyResults resp)
             = map (\<lambda>r. fileHandleId (originalFile r)) (copyRequests body)"
    and "length types = length ids" "length objs = length ids"
      "length ctypes = length ids" "length fnames = length ids"
  shows "map originalFileHandleId rs = ids"
  using assms
proof (induction rule: copy_pages_ok_induct)
  case (finish s i acc calls)
  then show ?case by simp
next
  case (page s i acc calls resp s1 rs calls' s')
  have "map originalFileHandleId (copyResults resp) = slice ids i (i + 100)"
    using page.prems(2) page.hyps(2) page_body_ids [OF page.prems(3-6)] by metis
  then have "map originalFileHandleId (acc @ copyResults resp) = take (i + 100) ids"
    using page.prems(1) by (simp add: take_slice_append)
  then show ?case using page.IH page.prems by blast
qed

text \<open>
  The log of a run that returns is the remote side's own account: the answers logged
  are the answers it gave to the logged bodies, received in that order, and the final
  state is the state this left it in.
\<close>

lemma remote_answers_snoc:
  "remote_answers post s bodies = (answers, s1) \<Longrightarrow> post s1 body = (answer, s2) \<Longrightarrow>
   remote_answers post s (bodies @ [body]) = (answers @ [answer], s2)"
  by (induction bodies arbitrary: s answers) (auto split: prod.splits)

lemma copy_pages_served:
  assumes "copy_pages post s ids types objs ctypes fnames i acc calls = (Inr rs, calls', s')"
    and "remote_answers post s0 (map fst calls) = (map snd calls, s)"
  shows "remote_answers post s0 (map fst calls') = (map snd calls', s')"
  using assms
proof (induction rule: copy_pages_ok_induct)
  case (finish s i acc calls)
  then show ?case by simp
next
  case (page s i acc calls resp s1 rs calls' s')
  have "remote_answers post s0
          (map fst (calls @ [(page_body ids types objs ctypes fnames i, Inr resp)]))
        = (map snd (calls @ [(page_body ids types objs ctypes fnames i, Inr resp)]), s1)"
    using remote_answers_snoc [OF page.prems page.hyps(2)] by simp
  then show ?case by (rule page.IH)
qed

text \<open>Against a remote side that answers every call, the loop returns a result.\<close>

lemma copy_pages_total:
  assumes "\<forall>s body. \<exists>resp s1. post s body = (Inr resp, s1)"
  shows "\<exists>rs calls' s'. copy_pages post s ids types objs ctypes fnames i acc calls = (Inr rs, calls', s')"
  using assms
proof (induction "length ids - i" arbitrary: s i acc calls rule: less_induct)
  case less
  show ?case
  proof (cases "i < length ids")
    case False
    then show ?thesis by (simp add: copy_pages_done del: copy_pages.simps)
  next
    case True
    from less.prems obtain resp s1 where
      p: "post s (page_body ids types objs ctypes fnames i) = (Inr resp, s1)" by blast
    have "length ids - (i + 100) < length ids - i" using True by simp
    from less.hyps [OF this less.prems]
    show ?thesis
      by (simp only: copy_pages_step_ok [where post = post and s = s, OF True p])
  qed
qed

subsection \<open>The test scenarios\<close>

lemma echo_post_total: "\<forall>s body. \<exists>resp s1. echo_post s body = (Inr resp, s1)"
  by (simp add: echo_post_def)

lemma echo_post_contract:
  "\<forall>s body resp s1. echo_post s body = (Inr resp, s1) \<longrightarrow>
     map originalFileHandleId (copyResults resp)
       = map (\<lambda>r. fileHandleId (originalFile r)) (copyRequests body)"
  by (auto simp: echo_post_def comp_def)

text \<open>The state of \<open>echo_post\<close> counts the calls that reached it.\<close>

lemma echo_post_counts: "snd (remote_answers echo_post n bodies) = n + length bodies"
proof (induction bodies arbitrary: n)
  case Nil
  show ?case by simp
next
  case (Cons body bodies)
  obtain answers s2 where r: "remote_answers echo_post (Suc n) bodies = (answers, s2)"
    by (cases "remote_answers echo_post (Suc n) bodies") auto
  with Cons [of "Suc n"] have s2: "s2 = Suc n + length bodies" by simp
  obtain answer where ep: "echo_post n body = (answer, Suc n)"
    by (simp add: echo_post_def)
  show ?case by (simp add: ep r s2)
qed

lemma test_lengths:
  "length test_file_handles = 102" "length test_obj_types = 102" "length test_obj_ids = 102"
  "length test_con_types = 102" "length test_file_names = 102"
  by (simp_all add: test_file_handles_def test_obj_types_def test_obj_ids_def
        test_con_types_def test_file_names_def num_copies_def)

lemma test_run_returns:
  "\<exists>rs calls s'. copyFileHandles echo_post 0 test_file_handles test_obj_types test_obj_ids
       (Some test_con_types) (Some test_file_names) = (Inr rs, calls, s')"
proof -
  have "test_file_handles \<noteq> []" using test_lengths(1) by auto
  then show ?thesis
    using copy_pages_total [OF echo_post_total]
    by (simp add: copyFileHandles_def test_lengths del: copy_pages.simps)
qed

section \<open>Properties of the batch copy coordinator\<close>

text \<open>
  C1. For valid input lists of size \<open>N\<close> (non-empty, of equal length), a call of
  \<^verbatim>\<open>copyFileHandles\<close> that returns its result list has issued exactly
  \<open>\<lceil>N / PAGE_SIZE\<rceil>\<close> remote calls, with \<open>PAGE_SIZE = 100\<close> the constant
  \<^verbatim>\<open>MAX_FILE_HANDLE_PER_COPY_REQUEST\<close>. The calls were made one after the other in
  ascending slice order: the \<open>k\<close>-th body is the page built from the input positions
  \<open>[100 k, 100 k + 100)\<close>, every page but the last holds exactly 100 items, and the
  last one the remaining \<open>N - 100 k\<close>. These are the calls that reached the remote
  side: the answers the coordinator got and the state \<open>s'\<close> in which the remote side is
  left are those of a remote side that, starting in \<open>s\<close>, received exactly these
  bodies in this order, each call in the state the previous one left. (A transport
  error ends the call at once, so only a call that returns has submitted all its pages.)
\<close>

theorem copyFileHandles_remote_calls:
  assumes "fileHandleIds \<noteq> []"
    and "length objTypes = length fileHandleIds"
    and "length objIds = length fileHandleIds"
    and "\<forall>cs. contentTypes = Some cs \<longrightarrow> length cs = length fileHandleIds"
    and "\<forall>fs. fileNames = Some fs \<longrightarrow> length fs = length fileHandleIds"
    and "copyFileHandles post s fileHandleIds objTypes objIds contentTypes fileNames
           = (Inr rs, calls, s')"
  shows "MAX_FILE_HANDLE_PER_COPY_REQUEST = 100 \<and>
         length calls = (length fileHandleIds + 99) div 100 \<and>
         map fst calls =
           map (\<lambda>k. page_body fileHandleIds objTypes objIds
                       (default_list (length fileHandleIds) contentTypes)
                       (default_list (length fileHandleIds) fileNames) (k * 100))
             [0..<(length fileHandleIds + 99) div 100] \<and>
         remote_answers post s (map fst calls) = (map snd calls, s') \<and>
         (\<forall>k < length calls.
            length (copyRequests (fst (calls ! k))) =
              (if Suc k < length calls then 100 else length fileHandleIds - k * 100))"
proof -
  let ?n = "length fileHandleIds"
  let ?cts = "default_list ?n contentTypes" and ?fns = "default_list ?n fileNames"
  let ?pb = "page_body fileHandleIds objTypes objIds ?cts ?fns"
  have lc: "length ?cts = ?n" using assms(4) by (cases contentTypes) (simp_all add: default_list_def)
  have lf: "length ?fns = ?n" using assms(5) by (cases fileNames) (simp_all add: default_list_def)
  have run: "copy_pages post s fileHandleIds objTypes objIds ?cts ?fns 0 [] [] = (Inr rs, calls, s')"
    using assms by (auto simp: copyFileHandles_def split: option.splits if_splits)
  have log: "map fst calls = map (\<lambda>k. ?pb (k * 100)) [0..<(?n + 99) div 100]"
    using copy_pages_calls [OF run] by simp
  then have len: "length calls = (?n + 99) div 100"
    using length_map [of fst calls] by simp
  have sizes: "length (copyRequests (fst (calls ! k))) =
              (if Suc k < length calls then 100 else ?n - k * 100)" if k: "k < length calls" for k
  proof -
    have "fst (calls ! k) = map fst calls ! k" using k by simp
    also have "\<dots> = ?pb (k * 100)" using k len by (simp add: log)
    finally have "length (copyRequests (fst (calls ! k))) = min 100 (?n - k * 100)"
      by (simp add: page_body_length [OF assms(2,3) lc lf])
    moreover have "k * 100 + 100 \<le> ?n" if "Suc k < (?n + 99) div 100"
      using that by simp
    moreover have "?n - k * 100 \<le> 100" if "\<not> Suc k < (?n + 99) div 100"
      using that by simp
    ultimately show ?thesis using len by auto
  qed
  have served: "remote_answers post s (map fst calls) = (map snd calls, s')"
    by (rule copy_pages_served [OF run]) simp
  show ?thesis
    using log len sizes served by (simp add: MAX_FILE_HANDLE_PER_COPY_REQUEST_def)
qed

text \<open>
  The scenario of \<^verbatim>\<open>test_copy_file_handles_multiple_batch\<close>: for \<open>N = 102\<close> exactly
  two remote calls are made, the first with 100 items and the second with 2; the remote
  side, which counts the calls it receives, has counted 2.
\<close>

theorem copyFileHandles_remote_calls_witness:
  "length test_file_handles = 102 \<and>
   (\<exists>rs calls.
      copyFileHandles echo_post 0 test_file_handles test_obj_types test_obj_ids
        (Some test_con_types) (Some test_file_names) = (Inr rs, calls, 2) \<and>
      length calls = 2 \<and>
      length (copyRequests (fst (calls ! 0))) = 100 \<and>
      length (copyRequests (fst (calls ! 1))) = 2)"
proof -
  obtain rs calls s' where run:
    "copyFileHandles echo_post 0 test_file_handles test_obj_types test_obj_ids
        (Some test_con_types) (Some test_file_names) = (Inr rs, calls, s')"
    using test_run_returns by blast
  have ne: "test_file_handles \<noteq> []" using test_lengths(1) by auto
  have c: "\<forall>cs. Some test_con_types = Some cs \<longrightarrow> length cs = length test_file_handles"
    by (simp add: test_lengths)
  have f: "\<forall>fs. Some test_file_names = Some fs \<longrightarrow> length fs = length test_file_handles"
    by (simp add: test_lengths)
  have t: "length test_obj_types = length test_file_handles"
    and obj: "length test_obj_ids = length test_file_handles" by (simp_all add: test_lengths)
  note facts = copyFileHandles_remote_calls [OF ne t obj c f run]
  from facts have len: "length calls = 2" by (simp add: test_lengths)
  from facts have "remote_answers echo_post 0 (map fst calls) = (map snd calls, s')"
    by blast
  then have "s' = snd (remote_answers echo_post 0 (map fst calls))" by simp
  with len have counted: "s' = 2" by (simp add: echo_post_counts)
  from facts have "\<forall>k<length calls. length (copyRequests (fst (calls ! k))) =
              (if Suc k < length calls then 100 else length test_file_handles - k * 100)"
    by blast
  with len have "length (copyRequests (fst (calls ! 0))) = 100"
    "length (copyRequests (fst (calls ! 1))) = 2"
    by (simp_all add: test_lengths)
  with run len counted show ?thesis by (simp add: test_lengths)
qed

text \<open>
  C2. For valid input lists of size \<open>N\<close>, the list returned by \<^verbatim>\<open>copyFileHandles\<close>
  is the concatenation of the \<^verbatim>\<open>copyResults\<close> of every page, in page order. When the
  remote side keeps the contract that the specification assumes of it (the results of a
  response correspond one to one, in order, to the items of the submitted page), the
  returned list has length \<open>N\<close> and its items follow the order of the input list of
  file handle ids.
\<close>

theorem copyFileHandles_result_order:
  assumes "fileHandleIds \<noteq> []"
    and "length objTypes = length fileHandleIds"
    and "length objIds = length fileHandleIds"
    and "\<forall>cs. contentTypes = Some cs \<longrightarrow> length cs = length fileHandleIds"
    and "\<forall>fs. fileNames = Some fs \<longrightarrow> length fs = length fileHandleIds"
    and "\<forall>s body resp s1. post s body = (Inr resp, s1) \<longrightarrow>
           map originalFileHandleId (copyResults resp)
             = map (\<lambda>r. fileHandleId (originalFile r)) (copyRequests body)"
    and "copyFileHandles post s fileHandleIds objTypes objIds contentTypes fileNames
           = (Inr rs, calls, s')"
  shows "rs = concat (map call_results calls) \<and>
         length rs = length fileHandleIds \<and>
         map originalFileHandleId rs = fileHandleIds"
proof -
  let ?n = "length fileHandleIds"
  let ?cts = "default_list ?n contentTypes" and ?fns = "default_list ?n fileNames"
  have lc: "length ?cts = ?n" using assms(4) by (cases contentTypes) (simp_all add: default_list_def)
  have lf: "length ?fns = ?n" using assms(5) by (cases fileNames) (simp_all add: default_list_def)
  have run: "copy_pages post s fileHandleIds objTypes objIds ?cts ?fns 0 [] [] = (Inr rs, calls, s')"
    using assms by (auto simp: copyFileHandles_def split: option.splits if_splits)
  have a: "rs = concat (map call_results calls)"
    by (rule copy_pages_results [OF run]) simp
  have b: "map originalFileHandleId rs = fileHandleIds"
    by (rule copy_pages_order [OF run _ assms(6) assms(2,3) lc lf]) simp
  from b have "length rs = ?n" using length_map [of originalFileHandleId rs] by simp
  with a b show ?thesis by simp
qed

theorem copyFileHandles_result_order_witness:
  "\<exists>rs calls s'.
      copyFileHandles echo_post 0 test_file_handles test_obj_types test_obj_ids
        (Some test_con_types) (Some test_file_names) = (Inr rs, calls, s') \<and>
      rs = concat (map call_results calls) \<and>
      length rs = 102 \<and>
      map originalFileHandleId rs = test_file_handles"
proof -
  obtain rs calls s' where run:
    "copyFileHandles echo_post 0 test_file_handles test_obj_types test_obj_ids
        (Some test_con_types) (Some test_file_names) = (Inr rs, calls, s')"
    using test_run_returns by blast
  have ne: "test_file_handles \<noteq> []" using test_lengths(1) by auto
  have c: "\<forall>cs. Some test_con_types = Some cs \<longrightarrow> length cs = length test_file_handles"
    by (simp add: test_lengths)
  have f: "\<forall>fs. Some test_file_names = Some fs \<longrightarrow> length fs = length test_file_handles"
    by (simp add: test_lengths)
  have t: "length test_obj_types = length test_file_handles"
    and obj: "length test_obj_ids = length test_file_handles" by (simp_all add: test_lengths)
  have "rs = concat (map call_results calls) \<and> length rs = length test_file_handles \<and>
      map originalFileHandleId rs = test_file_handles"
    by (rule copyFileHandles_result_order [OF ne t obj c f echo_post_contract run])
  then have "rs = concat (map call_results calls) \<and> length rs = 102 \<and>
      map originalFileHandleId rs = test_file_handles"
    by (metis test_lengths(1))
  with run show ?thesis by blast
qed

text \<open>
  C3. \<^verbatim>\<open>copyFileHandles\<close> fails with \<open>InvalidArgument\<close> and makes no remote call (the
  log of calls is empty and the remote state is untouched) whenever the required lists
  are empty or of unequal length, and whenever a supplied optional list has a length
  different from that of the required lists.
\<close>

theorem copyFileHandles_invalid_input:
  assumes "fileHandleIds = [] \<or> length objTypes \<noteq> length fileHandleIds
           \<or> length objIds \<noteq> length fileHandleIds
           \<or> (\<exists>cs. contentTypes = Some cs \<and> length cs \<noteq> length fileHandleIds)
           \<or> (\<exists>fs. fileNames = Some fs \<and> length fs \<noteq> length fileHandleIds)"
  shows "copyFileHandles post s fileHandleIds objTypes objIds contentTypes fileNames
           = (Inl InvalidArgument, [], s)"
  using assms by (auto simp: copyFileHandles_def)

text \<open>
  The inputs of \<^verbatim>\<open>test_copy_invalid_input_required_params\<close> and of
  \<^verbatim>\<open>test_copy_invalid_input_optional_params\<close>.
\<close>

theorem copyFileHandles_invalid_input_witness:
  "copyFileHandles echo_post 0 [''test''] [] [''123''] None None = (Inl InvalidArgument, [], 0) \<and>
   copyFileHandles echo_post 0 [''test1'', ''test2''] [''FileEntity'', ''FileEntity'']
     [''123'', ''456''] (Some [Some ''too'', Some ''many'', Some ''args''])
     (Some [Some ''too_few_args'']) = (Inl InvalidArgument, [], 0)"
  using copyFileHandles_invalid_input [of "[''test'']" "[]" "[''123'']" None None echo_post 0]
    copyFileHandles_invalid_input [of "[''test1'', ''test2'']" "[''FileEntity'', ''FileEntity'']"
      "[''123'', ''456'']" "Some [Some ''too'', Some ''many'', Some ''args'']"
      "Some [Some ''too_few_args'']" echo_post 0]
  by simp

text \<open>
  C4. Building the request body from the parallel lists
  \<^verbatim>\<open>(["345","789"], ["FileEntity","FileEntity"], ["543","987"], [None,"text/plain"],
  [None,"test"])\<close> gives exactly two entries, in input order, each with the file handle
  id, the associate object id and the associate object type nested under
  \<^verbatim>\<open>originalFile\<close>, and \<^verbatim>\<open>newFileName\<close> and \<^verbatim>\<open>newContentType\<close> at the top level of
  the entry.
\<close>

theorem create_batch_request_example:
  "create_batch_file_handle_copy_request
     [''345'', ''789''] [''FileEntity'', ''FileEntity''] [''543'', ''987'']
     [None, Some ''text/plain''] [None, Some ''test'']
   = \<lparr>copyRequests =
       [\<lparr>originalFile =
           \<lparr>fileHandleId = ''345'', associateObjectId = ''543'',
            associateObjectType = ''FileEntity''\<rparr>,
         newContentType = None, newFileName = None\<rparr>,
        \<lparr>originalFile =
           \<lparr>fileHandleId = ''789'', associateObjectId = ''987'',
            associateObjectType = ''FileEntity''\<rparr>,
         newContentType = Some ''text/plain'', newFileName = Some ''test''\<rparr>]\<rparr>"
  by (simp add: create_batch_file_handle_copy_request_def)



section \<open>Lemmas on the transfer adapters\<close>

text \<open>A client error of either request of the \<^verbatim>\<open>try\<close> block leaves the block as it is.\<close>

lemma download_file_try_client_error:
  assumes "(show_progress \<and> Object_load env bucket remote_file_key = Inl (ClientError code msg))
         \<or> ((show_progress \<longrightarrow> (\<exists>n. Object_load env bucket remote_file_key = Inr n))
            \<and> Object_download_file env bucket remote_file_key download_file_path
                = Some (ClientError code msg))"
  shows "fst (download_file_try os env bucket remote_file_key download_file_path show_progress)
         = Inl (ClientError code msg)"
  using assms by (auto simp: download_file_try_def Let_def)

text \<open>
  \<^verbatim>\<open>s.split(sep)\<close> is never empty, and its last element is what follows the last
  separator.
\<close>

lemma str_split_nonempty: "str_split s sep \<noteq> []"
  by (induction s) (auto split: list.splits)

lemma str_split_length: "length (str_split s sep) = Suc (length (filter (\<lambda>c. c = sep) s))"
  by (induction s) (auto split: list.splits simp: str_split_nonempty)

lemma str_split_single: "str_split s sep = [w] \<Longrightarrow> sep \<notin> set s \<and> w = s"
proof (induction s arbitrary: w)
  case Nil
  then show ?case by simp
next
  case (Cons c cs)
  then show ?case
    by (auto split: if_splits list.splits simp: str_split_nonempty)
qed

lemma takeWhile_snoc_stop: "\<not> P c \<Longrightarrow> takeWhile P (xs @ [c]) = takeWhile P xs"
  by (induction xs) auto

lemma str_split_last: "last (str_split s sep) = rev (takeWhile (\<lambda>c. c \<noteq> sep) (rev s))"
proof (induction s)
  case Nil
  show ?case by simp
next
  case (Cons c cs)
  show ?case
  proof (cases "c = sep")
    case True
    then show ?thesis
      using Cons by (simp add: str_split_nonempty takeWhile_snoc_stop)
  next
    case False
    obtain w ws where s: "str_split cs sep = w # ws"
      using str_split_nonempty [of cs sep] by (cases "str_split cs sep") auto
    show ?thesis
    proof (cases ws)
      case Nil
      with s have nosep: "sep \<notin> set cs" and w: "w = cs" using str_split_single by blast+
      have "\<forall>x\<in>set (rev cs @ [c]). x \<noteq> sep" using nosep False by auto
      then have eq: "takeWhile (\<lambda>c. c \<noteq> sep) (rev cs @ [c]) = rev cs @ [c]"
        by (rule takeWhile_eq_all_conv [THEN iffD2])
      have tw: "rev (takeWhile (\<lambda>c. c \<noteq> sep) (rev (c # cs))) = c # cs"
        unfolding rev.simps eq by simp
      have "last (str_split (c # cs) sep) = c # cs" using s Nil False w by simp
      with tw show ?thesis by (simp only:)
    next
      case (Cons v vs)
      with s have "2 \<le> length (str_split cs sep)" by simp
      then have "filter (\<lambda>c. c = sep) cs \<noteq> []" by (auto simp: str_split_length)
      then have "sep \<in> set (rev cs)" by (auto simp: filter_empty_conv)
      then have "takeWhile (\<lambda>c. c \<noteq> sep) (rev cs @ [c]) = takeWhile (\<lambda>c. c \<noteq> sep) (rev cs)"
        by (rule takeWhile_append1) simp
      with s Cons Cons.IH False show ?thesis by simp
    qed
  qed
qed

text \<open>The example installation on the URLs of the examples.\<close>

lemma example_urlparse_http:
  "urlparse example_urllib ''http://example.com/store''
     = Inr \<lparr>scheme = ''http'', netloc = ''example.com'', path = ''/store'',
            params = [], query = [], fragment = []\<rparr>"
  by (simp add: example_urllib_def example_urlparse_def Let_def)

lemma example_urlparse_sftp:
  "urlparse example_urllib ''sftp://sftp.example.com/path/to/file/store''
     = Inr \<lparr>scheme = ''sftp'', netloc = ''sftp.example.com'', path = ''/path/to/file/store'',
            params = [], query = [], fragment = []\<rparr>"
  by (simp add: example_urllib_def example_urlparse_def Let_def)

lemma example_urlparse_report:
  "urlparse example_urllib ''sftp://sftp.example.com/remote%20dir/report.txt''
     = Inr \<lparr>scheme = ''sftp'', netloc = ''sftp.example.com'',
            path = ''/remote%20dir/report.txt'', params = [], query = [], fragment = []\<rparr>"
  by (simp add: example_urllib_def example_urlparse_def Let_def)

lemma example_unquote_report:
  "unquote example_urllib ''/remote%20dir/report.txt'' = ''/remote dir/report.txt''"
  by code_simp

lemma example_last_component:
  "last (str_split ''/remote dir/report.txt'' CHR ''/'') = ''report.txt''"
  by code_simp

section \<open>Properties of the transfer adapters\<close>

text \<open>
  C6. An S3 download in which the object store answers with a client error, be it to the
  request for the object's size or to the transfer itself: if the error code is
  \<^verbatim>\<open>"404"\<close>, the adapter raises its own error for a missing object, whose arguments
  name the key and the bucket (in the source a \<^verbatim>\<open>ValueError\<close> with the message format,
  the key and the bucket); with any other code the client error of the store is raised
  again as it came, not wrapped.
\<close>

theorem download_file_client_error:
  assumes "boto3_importable env"
    and "Session env profile_name = None"
    and "resource env profile_name endpoint_url = None"
    and "(show_progress \<and> Object_load env bucket remote_file_key = Inl (ClientError code msg))
         \<or> ((show_progress \<longrightarrow> (\<exists>n. Object_load env bucket remote_file_key = Inr n))
            \<and> Object_download_file env bucket remote_file_key download_file_path
                = Some (ClientError code msg))"
  shows "fst (S3ClientWrapper_download_file os env bucket endpoint_url remote_file_key
                download_file_path profile_name show_progress)
         = Inl (if code = ''404''
                then ValueError [''The key:%s does not exist in bucket:%s.'',
                                 remote_file_key, bucket]
                else ClientError code msg)"
proof -
  obtain events where
    "download_file_try os env bucket remote_file_key download_file_path show_progress
       = (Inl (ClientError code msg), events)"
    using download_file_try_client_error [OF assms(4), where os = os]
    by (cases "download_file_try os env bucket remote_file_key download_file_path show_progress")
       auto
  then show ?thesis
    using assms(1-3)
    by (simp add: S3ClientWrapper_download_file_def check_import_boto3_def
          download_file_except_def)
qed

theorem download_file_client_error_witness:
  "fst (S3ClientWrapper_download_file example_os example_boto3 ''my-bucket''
          ''https://s3.example.com'' ''missing.txt'' ''/tmp/missing.txt'' None True)
     = Inl (ValueError [''The key:%s does not exist in bucket:%s.'', ''missing.txt'',
                        ''my-bucket''])
   \<and> fst (S3ClientWrapper_download_file example_os example_boto3 ''my-bucket''
          ''https://s3.example.com'' ''secret.txt'' ''/tmp/secret.txt'' None False)
     = Inl (ClientError ''403'' ''Forbidden'')"
  using download_file_client_error [of example_boto3 None "''https://s3.example.com''" True
      "''my-bucket''" "''missing.txt''" "''404''" "''Not Found''" "''/tmp/missing.txt''"
      example_os]
    download_file_client_error [of example_boto3 None "''https://s3.example.com''" False
      "''my-bucket''" "''secret.txt''" "''403''" "''Forbidden''" "''/tmp/secret.txt''"
      example_os]
  by (simp add: example_boto3_def example_head_def)

text \<open>
  C7. An S3 upload whose source path does not exist or is not a regular file raises the
  error for an invalid argument (in the source a \<^verbatim>\<open>ValueError\<close> carrying the path)
  before any network activity: no session or resource has been created and no transfer
  attempted, the list of operations is empty. The adapter is taken as configured, that
  is, \<^verbatim>\<open>boto3\<close> can be imported; the import check comes first in the source.
\<close>

theorem upload_file_missing_source:
  assumes "boto3_importable env"
    and "\<not> os_path_isfile os upload_file_path"
  shows "S3ClientWrapper_upload_file os env bucket endpoint_url remote_file_key upload_file_path
           profile_name show_progress
         = (Inl (ValueError [''The path: [%s] does not exist or is not a file'',
                             upload_file_path]), [])"
  using assms by (simp add: S3ClientWrapper_upload_file_def check_import_boto3_def)

theorem upload_file_missing_source_witness:
  "S3ClientWrapper_upload_file example_os example_boto3 ''my-bucket'' ''https://s3.example.com''
     ''folder/nothing.csv'' ''/home/user/nothing.csv'' None True
     = (Inl (ValueError [''The path: [%s] does not exist or is not a file'',
                         ''/home/user/nothing.csv'']), [])
   \<and> S3ClientWrapper_upload_file example_os example_boto3 ''my-bucket'' ''https://s3.example.com''
     ''folder/tmp'' ''/tmp'' None False
     = (Inl (ValueError [''The path: [%s] does not exist or is not a file'', ''/tmp'']), [])"
  using upload_file_missing_source [of example_boto3 example_os "''/home/user/nothing.csv''"
      "''my-bucket''" "''https://s3.example.com''" "''folder/nothing.csv''" None True]
    upload_file_missing_source [of example_boto3 example_os "''/tmp''"
      "''my-bucket''" "''https://s3.example.com''" "''folder/tmp''" None False]
  by (simp add: example_boto3_def example_os_def example_files_def)

text \<open>
  C8, as stated: every successful upload, S3 or SFTP, returns a locator of the uploaded
  object, built by percent-encoding the path component and reassembling the URL. The S3
  adapter does not: it returns the local source path it was given, blank and all, and
  returns the same value whatever the bucket, the endpoint and the key.
\<close>

theorem s3_upload_returns_source_path:
  "fst (S3ClientWrapper_upload_file example_os example_boto3 ''my-bucket''
          ''https://s3.example.com'' ''folder/data file.csv'' ''/home/user/data file.csv''
          None True)
     = Inr ''/home/user/data file.csv''
   \<and> fst (S3ClientWrapper_upload_file example_os example_boto3 ''other-bucket''
          ''https://s3.example.org'' ''elsewhere/copy.csv'' ''/home/user/data file.csv''
          None True)
     = Inr ''/home/user/data file.csv''"
  by (simp add: S3ClientWrapper_upload_file_def check_import_boto3_def example_boto3_def
        example_os_def example_files_def Let_def)

text \<open>
  C8, amended. A successful SFTP upload returns the URL of the stored file: the path of
  the parsed target URL, followed by a slash and the last component of the local file
  path, is percent-encoded and put in place of the path component, and the URL is
  reassembled from its parts. A successful S3 upload returns the local source path
  unchanged.
\<close>

theorem upload_file_result:
  "(SFTPWrapper_upload_file lib os env filepath url username password = (Inr r, events) \<longrightarrow>
      (\<exists>parsedURL.
         urlparse lib url = Inr parsedURL \<and> scheme parsedURL = ''sftp'' \<and>
         r = urlunparse lib
               (parsedURL\<lparr>path :=
                  quote lib (path parsedURL @ ''/'' @ snd (os_path_split os filepath))\<rparr>)))
   \<and> (S3ClientWrapper_upload_file os s3env bucket endpoint_url remote_file_key
         upload_file_path profile_name show_progress = (Inr r', events') \<longrightarrow>
      r' = upload_file_path)"
proof (intro conjI impI)
  assume "SFTPWrapper_upload_file lib os env filepath url username password = (Inr r, events)"
  then show "\<exists>parsedURL.
         urlparse lib url = Inr parsedURL \<and> scheme parsedURL = ''sftp'' \<and>
         r = urlunparse lib
               (parsedURL\<lparr>path :=
                  quote lib (path parsedURL @ ''/'' @ snd (os_path_split os filepath))\<rparr>)"
    by (auto simp: SFTPWrapper_upload_file_def parse_for_sftp_def Let_def
          split: option.splits sum.splits if_splits prod.splits)
next
  assume "S3ClientWrapper_upload_file os s3env bucket endpoint_url remote_file_key
         upload_file_path profile_name show_progress = (Inr r', events')"
  then show "r' = upload_file_path"
    by (auto simp: S3ClientWrapper_upload_file_def Let_def
          split: option.splits if_splits)
qed

theorem upload_file_result_witness:
  "(\<exists>events parsedURL.
      SFTPWrapper_upload_file example_urllib example_os example_pysftp
        ''/home/user/data file.csv'' ''sftp://sftp.example.com/path/to/file/store''
        (Some ''user'') (Some ''pw'')
        = (Inr ''sftp://sftp.example.com/path/to/file/store/data%20file.csv'', events) \<and>
      urlparse example_urllib ''sftp://sftp.example.com/path/to/file/store'' = Inr parsedURL \<and>
      ''sftp://sftp.example.com/path/to/file/store/data%20file.csv''
        = urlunparse example_urllib
            (parsedURL\<lparr>path :=
               quote example_urllib
                 (path parsedURL @ ''/'' @
                  snd (os_path_split example_os ''/home/user/data file.csv''))\<rparr>))
   \<and> (\<exists>events.
        S3ClientWrapper_upload_file example_os example_boto3 ''my-bucket''
          ''https://s3.example.com'' ''folder/data file.csv'' ''/home/user/data file.csv''
          None True = (Inr ''/home/user/data file.csv'', events))"
proof -
  obtain r events where sftp:
    "SFTPWrapper_upload_file example_urllib example_os example_pysftp
        ''/home/user/data file.csv'' ''sftp://sftp.example.com/path/to/file/store''
        (Some ''user'') (Some ''pw'') = (r, events)"
    by (cases "SFTPWrapper_upload_file example_urllib example_os example_pysftp
        ''/home/user/data file.csv'' ''sftp://sftp.example.com/path/to/file/store''
        (Some ''user'') (Some ''pw'')") auto
  have "fst (SFTPWrapper_upload_file example_urllib example_os example_pysftp
        ''/home/user/data file.csv'' ''sftp://sftp.example.com/path/to/file/store''
        (Some ''user'') (Some ''pw''))
        = Inr ''sftp://sftp.example.com/path/to/file/store/data%20file.csv''"
    by code_simp
  with sftp have sftp':
    "SFTPWrapper_upload_file example_urllib example_os example_pysftp
        ''/home/user/data file.csv'' ''sftp://sftp.example.com/path/to/file/store''
        (Some ''user'') (Some ''pw'')
        = (Inr ''sftp://sftp.example.com/path/to/file/store/data%20file.csv'', events)"
    by simp
  obtain r' events' where s3:
    "S3ClientWrapper_upload_file example_os example_boto3 ''my-bucket''
          ''https://s3.example.com'' ''folder/data file.csv'' ''/home/user/data file.csv''
          None True = (Inr r', events')"
    by (simp add: S3ClientWrapper_upload_file_def check_import_boto3_def example_boto3_def
        example_os_def example_files_def Let_def)
  note both = upload_file_result [of example_urllib example_os example_pysftp
      "''/home/user/data file.csv''" "''sftp://sftp.example.com/path/to/file/store''"
      "Some ''user''" "Some ''pw''"
      "''sftp://sftp.example.com/path/to/file/store/data%20file.csv''" events
      example_boto3 "''my-bucket''" "''https://s3.example.com''" "''folder/data file.csv''"
      "''/home/user/data file.csv''" None True r' events']
  from both sftp' obtain parsedURL where
    "urlparse example_urllib ''sftp://sftp.example.com/path/to/file/store'' = Inr parsedURL"
    "''sftp://sftp.example.com/path/to/file/store/data%20file.csv''
        = urlunparse example_urllib
            (parsedURL\<lparr>path :=
               quote example_urllib
                 (path parsedURL @ ''/'' @
                  snd (os_path_split example_os ''/home/user/data file.csv''))\<rparr>)"
    by blast
  moreover from both s3 have "r' = ''/home/user/data file.csv''" by blast
  ultimately show ?thesis using sftp' s3 by blast
qed

text \<open>
  C9. An SFTP upload or download whose URL has a scheme other than \<^verbatim>\<open>sftp\<close> raises the
  error for malformed caller input (in the source a \<^verbatim>\<open>NotImplementedError\<close>) before any
  connection is opened: the list of operations is empty. For a URL with the scheme
  \<^verbatim>\<open>sftp\<close> the parse step returns the parsed URL and raises nothing. The scheme of a
  URL is the one that \<^verbatim>\<open>urlparse\<close> finds; the adapter is taken as configured, that is,
  \<^verbatim>\<open>pysftp\<close> can be imported.
\<close>

theorem sftp_scheme_check:
  assumes "pysftp_importable env"
    and "urlparse lib url = Inr parsedURL"
  shows "(scheme parsedURL \<noteq> ''sftp'' \<longrightarrow>
            SFTPWrapper_upload_file lib os env filepath url username password
              = (Inl (NotImplementedError
                        [''This method only supports sftp URLs of the  form sftp://...'']), [])
            \<and> SFTPWrapper_download_file lib os env url localFilepath username password
              = (Inl (NotImplementedError
                        [''This method only supports sftp URLs of the  form sftp://...'']), []))
       \<and> (scheme parsedURL = ''sftp'' \<longrightarrow> parse_for_sftp lib url = Inr parsedURL)"
  using assms
  by (simp add: SFTPWrapper_upload_file_def SFTPWrapper_download_file_def parse_for_sftp_def
        check_import_sftp_def)

theorem sftp_scheme_check_witness:
  "SFTPWrapper_upload_file example_urllib example_os example_pysftp
       ''/home/user/data file.csv'' ''http://example.com/store'' (Some ''user'') (Some ''pw'')
     = (Inl (NotImplementedError
               [''This method only supports sftp URLs of the  form sftp://...'']), [])
   \<and> SFTPWrapper_download_file example_urllib example_os example_pysftp
       ''http://example.com/store'' None (Some ''user'') (Some ''pw'')
     = (Inl (NotImplementedError
               [''This method only supports sftp URLs of the  form sftp://...'']), [])
   \<and> parse_for_sftp example_urllib ''sftp://sftp.example.com/path/to/file/store''
     = Inr \<lparr>scheme = ''sftp'', netloc = ''sftp.example.com'', path = ''/path/to/file/store'',
            params = [], query = [], fragment = []\<rparr>"
proof -
  have imp: "pysftp_importable example_pysftp" by (simp add: example_pysftp_def)
  from sftp_scheme_check [OF imp example_urlparse_http, of example_os
      "''/home/user/data file.csv''" "Some ''user''" "Some ''pw''" None]
    sftp_scheme_check [OF imp example_urlparse_sftp, of example_os
      "''/home/user/data file.csv''" "Some ''user''" "Some ''pw''" None]
  show ?thesis by simp
qed

text \<open>
  Where an SFTP download puts the file, on the runs in which the directory of the
  destination exists or can be created. Let \<open>r\<close> be the destination that the adapter
  resolves. When the URL is an \<^verbatim>\<open>sftp\<close> URL and the server accepts the connection and
  the transfer, the call returns \<open>r\<close>, and it creates the directory of \<open>r\<close>, if that
  does not exist, before it opens the connection and transfers the file. When
  \<^verbatim>\<open>localFilepath\<close> is omitted, \<open>r\<close> is the current working directory (a directory)
  joined with the last component of the unquoted URL path; when \<^verbatim>\<open>localFilepath\<close>
  names an existing directory, \<open>r\<close> is that directory joined with the same remote file
  name; otherwise \<open>r\<close> is \<^verbatim>\<open>localFilepath\<close> itself.
\<close>

lemma download_file_destination:
  assumes "pysftp_importable env"
    and "urlparse lib url = Inr parsedURL"
    and "scheme parsedURL = ''sftp''"
    and "r = download_local_path lib os parsedURL localFilepath"
    and "\<not> os_path_exists os (os_path_dirname os r) \<longrightarrow>
           os_makedirs os (os_path_dirname os r) = None"
    and "Connection env (hostname lib parsedURL) username password = None"
    and "sftp_get env (unquote lib (path parsedURL)) r = None"
  shows "SFTPWrapper_download_file lib os env url localFilepath username password
           = (Inr r,
              (if os_path_exists os (os_path_dirname os r) then []
               else [LocalMakedirs (os_path_dirname os r)])
              @ [OpenConnection (hostname lib parsedURL) username password,
                 Get (unquote lib (path parsedURL)) r True,
                 CloseConnection])
       \<and> (localFilepath = None \<and> os_path_isdir os (os_getcwd os) \<longrightarrow>
            r = os_path_join os (os_getcwd os)
                  (last (str_split (unquote lib (path parsedURL)) CHR ''/'')))
       \<and> (\<forall>d. localFilepath = Some d \<and> os_path_isdir os d \<longrightarrow>
            r = os_path_join os d
                  (last (str_split (unquote lib (path parsedURL)) CHR ''/'')))
       \<and> (\<forall>f. localFilepath = Some f \<and> \<not> os_path_isdir os f \<longrightarrow> r = f)"
proof -
  have p: "parse_for_sftp lib url = Inr parsedURL"
    using assms(2,3) by (simp add: parse_for_sftp_def)
  have run: "SFTPWrapper_download_file lib os env url localFilepath username password
           = (Inr r,
              (if os_path_exists os (os_path_dirname os r) then []
               else [LocalMakedirs (os_path_dirname os r)])
              @ [OpenConnection (hostname lib parsedURL) username password,
                 Get (unquote lib (path parsedURL)) r True,
                 CloseConnection])"
    using assms(1,5,6,7) p
    by (simp add: SFTPWrapper_download_file_def check_import_sftp_def Let_def
          assms(4) [symmetric])
  have where_to: "(localFilepath = None \<and> os_path_isdir os (os_getcwd os) \<longrightarrow>
            r = os_path_join os (os_getcwd os)
                  (last (str_split (unquote lib (path parsedURL)) CHR ''/'')))
       \<and> (\<forall>d. localFilepath = Some d \<and> os_path_isdir os d \<longrightarrow>
            r = os_path_join os d
                  (last (str_split (unquote lib (path parsedURL)) CHR ''/'')))
       \<and> (\<forall>f. localFilepath = Some f \<and> \<not> os_path_isdir os f \<longrightarrow> r = f)"
    by (auto simp: assms(4) download_local_path_def Let_def)
  from run where_to show ?thesis by (rule conjI)
qed

lemma download_file_destination_examples:
  "SFTPWrapper_download_file example_urllib example_os example_pysftp
       ''sftp://sftp.example.com/remote%20dir/report.txt'' None (Some ''user'') (Some ''pw'')
     = (Inr ''/home/user/report.txt'',
        [OpenConnection (Some ''sftp.example.com'') (Some ''user'') (Some ''pw''),
         Get ''/remote dir/report.txt'' ''/home/user/report.txt'' True,
         CloseConnection])
   \<and> SFTPWrapper_download_file example_urllib example_os example_pysftp
       ''sftp://sftp.example.com/remote%20dir/report.txt'' (Some ''/tmp'') (Some ''user'')
       (Some ''pw'')
     = (Inr ''/tmp/report.txt'',
        [OpenConnection (Some ''sftp.example.com'') (Some ''user'') (Some ''pw''),
         Get ''/remote dir/report.txt'' ''/tmp/report.txt'' True,
         CloseConnection])
   \<and> SFTPWrapper_download_file example_urllib example_os example_pysftp
       ''sftp://sftp.example.com/remote%20dir/report.txt'' (Some ''/data/new/out.txt'')
       (Some ''user'') (Some ''pw'')
     = (Inr ''/data/new/out.txt'',
        [LocalMakedirs ''/data/new'',
         OpenConnection (Some ''sftp.example.com'') (Some ''user'') (Some ''pw''),
         Get ''/remote dir/report.txt'' ''/data/new/out.txt'' True,
         CloseConnection])"
proof -
  let ?u = "\<lparr>scheme = ''sftp'', netloc = ''sftp.example.com'',
            path = ''/remote%20dir/report.txt'', params = [], query = [], fragment = []\<rparr>"
  have imp: "pysftp_importable example_pysftp" by (simp add: example_pysftp_def)
  have sch: "scheme ?u = ''sftp''" by simp
  have host: "hostname example_urllib ?u = Some ''sftp.example.com''"
    by (simp add: example_urllib_def example_hostname_def)
  have conn: "Connection example_pysftp (hostname example_urllib ?u) (Some ''user'') (Some ''pw'')
      = None" by (simp add: example_pysftp_def)
  have get: "sftp_get example_pysftp (unquote example_urllib (path ?u)) r = None" for r
    by (simp add: example_pysftp_def)
  have r1: "''/home/user/report.txt'' = download_local_path example_urllib example_os ?u None"
    using example_unquote_report example_last_component
    by (simp add: download_local_path_def example_os_def example_dirs_def posix_join_def)
  have r2: "''/tmp/report.txt''
      = download_local_path example_urllib example_os ?u (Some ''/tmp'')"
    using example_unquote_report example_last_component
    by (simp add: download_local_path_def example_os_def example_dirs_def posix_join_def)
  have r3: "''/data/new/out.txt''
      = download_local_path example_urllib example_os ?u (Some ''/data/new/out.txt'')"
    by (simp add: download_local_path_def example_os_def example_dirs_def)
  have d1: "os_path_dirname example_os ''/home/user/report.txt'' = ''/home/user''"
    and d2: "os_path_dirname example_os ''/tmp/report.txt'' = ''/tmp''"
    and d3: "os_path_dirname example_os ''/data/new/out.txt'' = ''/data/new''"
    by (simp_all add: example_os_def posix_dirname_def Let_def)
  have e1: "os_path_exists example_os ''/home/user''"
    and e2: "os_path_exists example_os ''/tmp''"
    and e3: "\<not> os_path_exists example_os ''/data/new''"
    and m3: "os_makedirs example_os ''/data/new'' = None"
    by (simp_all add: example_os_def example_dirs_def example_files_def)
  have mk1: "\<not> os_path_exists example_os (os_path_dirname example_os ''/home/user/report.txt'')
      \<longrightarrow> os_makedirs example_os (os_path_dirname example_os ''/home/user/report.txt'') = None"
    by (simp add: d1 e1)
  have mk2: "\<not> os_path_exists example_os (os_path_dirname example_os ''/tmp/report.txt'')
      \<longrightarrow> os_makedirs example_os (os_path_dirname example_os ''/tmp/report.txt'') = None"
    by (simp add: d2 e2)
  have mk3: "\<not> os_path_exists example_os (os_path_dirname example_os ''/data/new/out.txt'')
      \<longrightarrow> os_makedirs example_os (os_path_dirname example_os ''/data/new/out.txt'') = None"
    by (simp add: d3 m3)
  from download_file_destination [OF imp example_urlparse_report sch r1 mk1 conn get]
    download_file_destination [OF imp example_urlparse_report sch r2 mk2 conn get]
    download_file_destination [OF imp example_urlparse_report sch r3 mk3 conn get]
  show ?thesis
    using example_unquote_report by (simp add: host d1 d2 d3 e1 e2 e3)
qed

text \<open>
  C10. The destination of an SFTP download is resolved, any missing parent directory of
  it is created before the transfer, and the resolved local path is returned. The code
  does not do so for a destination given as a bare file name, such as \<^verbatim>\<open>out.txt\<close>: the
  resolved destination is \<^verbatim>\<open>out.txt\<close> in the working directory, which exists, but
  \<^verbatim>\<open>os.path.dirname\<close> of it is the empty string, \<^verbatim>\<open>os.path.exists('')\<close> is false, and
  \<^verbatim>\<open>os.makedirs('')\<close> raises. The call ends with that exception before any connection is
  opened; nothing is transferred and no path is returned.
\<close>

theorem download_file_bare_file_name:
  "download_local_path example_urllib example_os
       \<lparr>scheme = ''sftp'', netloc = ''sftp.example.com'',
        path = ''/remote%20dir/report.txt'', params = [], query = [], fragment = []\<rparr>
       (Some ''out.txt'') = ''out.txt''
   \<and> os_path_dirname example_os ''out.txt'' = []
   \<and> SFTPWrapper_download_file example_urllib example_os example_pysftp
       ''sftp://sftp.example.com/remote%20dir/report.txt'' (Some ''out.txt'') (Some ''user'')
       (Some ''pw'')
     = (Inl (LibraryError ''FileNotFoundError''), [LocalMakedirs []])"
proof -
  let ?u = "\<lparr>scheme = ''sftp'', netloc = ''sftp.example.com'',
            path = ''/remote%20dir/report.txt'', params = [], query = [], fragment = []\<rparr>"
  have p: "parse_for_sftp example_urllib ''sftp://sftp.example.com/remote%20dir/report.txt''
      = Inr ?u"
    using example_urlparse_report by (simp add: parse_for_sftp_def)
  have r: "download_local_path example_urllib example_os ?u (Some ''out.txt'') = ''out.txt''"
    by (simp add: download_local_path_def example_os_def example_dirs_def)
  have d: "os_path_dirname example_os ''out.txt'' = []"
    by (simp add: example_os_def posix_dirname_def Let_def)
  have e: "\<not> os_path_exists example_os []"
    and m: "os_makedirs example_os [] = Some (LibraryError ''FileNotFoundError'')"
    by (simp_all add: example_os_def example_dirs_def example_files_def)
  have i: "pysftp_importable example_pysftp" by (simp add: example_pysftp_def)
  have "SFTPWrapper_download_file example_urllib example_os example_pysftp
       ''sftp://sftp.example.com/remote%20dir/report.txt'' (Some ''out.txt'') (Some ''user'')
       (Some ''pw'')
     = (Inl (LibraryError ''FileNotFoundError''), [LocalMakedirs []])"
    by (simp add: SFTPWrapper_download_file_def check_import_sftp_def i p r d e m Let_def)
  with r d show ?thesis by simp
qed

end
